theory Spec2Isabelle
  imports Main "HOL-Library.Word"
begin

section \<open>Package models: the uploads table (models/upload.go)\<close>

subsection \<open>Values\<close>

text \<open>
  A Go \<open>error\<close> is a value carrying its message. A \<open>time.Time\<close> is the number of
  nanoseconds since the Unix epoch; \<open>Unix\<close> is \<open>time.Time.Unix()\<close>, the whole seconds.
\<close>

datatype error = Error string

type_synonym Time = int

type_synonym int64 = "64 word"

definition Unix :: "Time \<Rightarrow> int" where
  "Unix t = t div 1000000000"

text \<open>
  \<open>type Upload struct\<close>. Of the embedded \<open>gorm.Model\<close> only the primary key \<open>ID\<close> is
  kept: \<open>CreatedAt\<close> and \<open>UpdatedAt\<close> are never read by this package, and a row whose
  \<open>DeletedAt\<close> is set is invisible to every query below, so a deleted row is dropped from
  the table.
\<close>

record Upload =
  ID :: nat
  Hash :: string
  Type :: string
  Name :: string
  NetworkName :: string
  HoldTimeInMonths :: int64
  UserName :: string
  GarbageCollectDate :: Time
  UserNames :: "string list"

subsection \<open>The database handle (\<open>um.DB\<close>, a \<open>*gorm.DB\<close>)\<close>

text \<open>
  The table is the list of its visible rows in primary-key order; \<open>next_id\<close> is the
  auto-increment counter. The library calls used by the package are modelled by what they
  do to the table. A handle carries the conditions collected so far: \<open>um.DB\<close> has none,
  \<open>Where\<close> returns a handle with one more, \<open>First\<close> and \<open>Find\<close> run the query of
  the handle they are called on. Every call can fail (\<open>check.Error != nil\<close>): the first
  argument of each operation is the error the database answers with, if any, and a failed
  call leaves the table, and the destination of a read, as they were. \<open>Save\<close> and
  \<open>Delete\<close> address a row by its primary key; the rows they are given here were read from
  the table, so they carry the key the database assigned (the library treats a zero key
  as no key, which a stored row never has).
\<close>

record DB =
  rows :: "Upload list"
  next_id :: nat

definition ErrRecordNotFound :: error where
  "ErrRecordNotFound = Error ''record not found''"

type_synonym Query = "(Upload \<Rightarrow> bool) list"

definition um_DB :: Query where
  "um_DB = []"

definition Where :: "Query \<Rightarrow> (Upload \<Rightarrow> bool) \<Rightarrow> Query" where
  "Where q cond = q @ [cond]"

definition matches :: "Query \<Rightarrow> Upload \<Rightarrow> bool" where
  "matches q r = list_all (\<lambda>cond. cond r) q"

definition db_First :: "error option \<Rightarrow> Query \<Rightarrow> DB \<Rightarrow> error + Upload" where
  "db_First fault q db =
     (case fault of
        Some e \<Rightarrow> Inl e
      | None \<Rightarrow> (case filter (matches q) (rows db) of
                   [] \<Rightarrow> Inl ErrRecordNotFound
                 | u # _ \<Rightarrow> Inr u))"

definition db_Find :: "error option \<Rightarrow> Query \<Rightarrow> DB \<Rightarrow> error option \<times> Upload list" where
  "db_Find fault q db =
     (case fault of
        Some e \<Rightarrow> (Some e, [])
      | None \<Rightarrow> (None, filter (matches q) (rows db)))"

definition db_Create :: "error option \<Rightarrow> Upload \<Rightarrow> DB \<Rightarrow> error option \<times> Upload \<times> DB" where
  "db_Create fault u db =
     (case fault of
        Some e \<Rightarrow> (Some e, u, db)
      | None \<Rightarrow>
          (let u' = u\<lparr>ID := next_id db\<rparr>
           in (None, u', db\<lparr>rows := rows db @ [u'], next_id := Suc (next_id db)\<rparr>)))"

definition db_Save :: "error option \<Rightarrow> Upload \<Rightarrow> DB \<Rightarrow> error option \<times> DB" where
  "db_Save fault u db =
     (case fault of
        Some e \<Rightarrow> (Some e, db)
      | None \<Rightarrow>
          (if ID u \<in> set (map ID (rows db))
           then (None, db\<lparr>rows := map (\<lambda>r. if ID r = ID u then u else r) (rows db)\<rparr>)
           else (None, db\<lparr>rows := rows db @ [u]\<rparr>)))"

definition db_Delete :: "error option \<Rightarrow> Upload \<Rightarrow> DB \<Rightarrow> error option \<times> DB" where
  "db_Delete fault u db =
     (case fault of
        Some e \<Rightarrow> (Some e, db)
      | None \<Rightarrow> (None, db\<lparr>rows := filter (\<lambda>r. ID r \<noteq> ID u) (rows db)\<rparr>))"

text \<open>
  What surrounds one call of a manager method: the answers of the database to each of its
  queries, the platform's \<open>strconv.IntSize\<close>, the result \<open>utils.CalculateGarbageCollectDate\<close>
  gives at that moment (the function is not part of the sources at hand and reads the
  clock), and the readings of \<open>time.Now()\<close>, numbered in the order they are taken.
\<close>

record world =
  IntSize :: nat
  CalculateGarbageCollectDate :: "int \<Rightarrow> Time"
  Now :: "nat \<Rightarrow> Time"
  first_fault :: "error option"
  find_fault :: "error option"
  create_fault :: "error option"
  save_fault :: "error option"
  delete_fault :: "nat \<Rightarrow> error option"

text \<open>
  \<open>strconv.Atoi(fmt.Sprintf("%v", h))\<close> for an \<open>int64\<close> \<open>h\<close> (and with \<open>"%+v"\<close>, whose
  sign \<open>Atoi\<close> accepts): the decimal text of \<open>h\<close> read back as an \<open>int\<close> of \<open>IntSize\<close>
  bits. Out of range, \<open>Atoi\<close> answers the nearest bound and a range error.
\<close>

definition ErrRange :: error where
  "ErrRange = Error ''value out of range''"

definition Atoi_Sprintf :: "nat \<Rightarrow> int64 \<Rightarrow> int \<times> error option" where
  "Atoi_Sprintf bits h =
     (if sint h < - (2 ^ (bits - 1)) then (- (2 ^ (bits - 1)), Some ErrRange)
      else if 2 ^ (bits - 1) \<le> sint h then (2 ^ (bits - 1) - 1, Some ErrRange)
      else (sint h, None))"

subsection \<open>The manager's methods\<close>

definition FindUploadByHashAndNetworkAndUser ::
  "world \<Rightarrow> string \<Rightarrow> string \<Rightarrow> string \<Rightarrow> DB \<Rightarrow> error + Upload" where
  "FindUploadByHashAndNetworkAndUser w hash networkName username db =
     db_First (first_fault w)
       (Where um_DB
          (\<lambda>r. Hash r = hash \<and> NetworkName r = networkName \<and> UserName r = username)) db"

definition ErrUploadExists :: error where
  "ErrUploadExists =
     Error ''attempting to create new upload entry when one already exists in database''"

definition NewUpload ::
  "world \<Rightarrow> string \<Rightarrow> string \<Rightarrow> string \<Rightarrow> string \<Rightarrow> string \<Rightarrow> int64 \<Rightarrow> DB
     \<Rightarrow> (Upload option \<times> error option) \<times> DB" where
  "NewUpload w contentHash uploadType networkName username name holdTimeInMonths db =
     (case FindUploadByHashAndNetworkAndUser w contentHash networkName username db of
        Inr _ \<Rightarrow> ((None, Some ErrUploadExists), db)
      | Inl _ \<Rightarrow>
          (case Atoi_Sprintf (IntSize w) holdTimeInMonths of
             (_, Some err) \<Rightarrow> ((None, Some err), db)
           | (holdInt, None) \<Rightarrow>
               (let upload = \<lparr>ID = 0, Hash = contentHash, Type = uploadType, Name = name,
                               NetworkName = networkName,
                               HoldTimeInMonths = holdTimeInMonths, UserName = username,
                               GarbageCollectDate = CalculateGarbageCollectDate w holdInt,
                               UserNames = [username]\<rparr>
                in case db_Create (create_fault w) upload db of
                     (Some err, _, db') \<Rightarrow> ((None, Some err), db')
                   | (None, upload', db') \<Rightarrow> ((Some upload', None), db'))))"

text \<open>The \<open>for _, v := range upload.UserNames\<close> loop of \<open>UpdateUpload\<close>, with its \<open>break\<close>.\<close>

fun isUploader :: "string \<Rightarrow> string list \<Rightarrow> bool" where
  "isUploader username [] = False"
| "isUploader username (v # vs) = (if username = v then True else isUploader username vs)"

definition UpdateUpload ::
  "world \<Rightarrow> int64 \<Rightarrow> string \<Rightarrow> string \<Rightarrow> string \<Rightarrow> DB
     \<Rightarrow> (Upload option \<times> error option) \<times> DB" where
  "UpdateUpload w holdTimeInMonths username contentHash networkName db =
     (case FindUploadByHashAndNetworkAndUser w contentHash networkName username db of
        Inl err \<Rightarrow> ((None, Some err), db)
      | Inr found \<Rightarrow>
          (let upload1 = found\<lparr>UserName := username\<rparr>;
               upload2 = (if \<not> isUploader username (UserNames upload1)
                          then upload1\<lparr>UserNames := UserNames upload1 @ [username]\<rparr>
                          else upload1);
               (holdInt, err) = Atoi_Sprintf (IntSize w) holdTimeInMonths
           in if err \<noteq> None then ((None, err), db)
              else
                (let oldGcd = GarbageCollectDate upload2;
                     newGcd = CalculateGarbageCollectDate w holdInt;
                     upload3 = (if Unix newGcd > Unix oldGcd
                                then upload2\<lparr>HoldTimeInMonths := holdTimeInMonths,
                                             GarbageCollectDate := oldGcd\<rparr>
                                else upload2)
                 in case db_Save (save_fault w) upload3 db of
                      (Some _, db') \<Rightarrow> ((None, err), db')
                    | (None, db') \<Rightarrow> ((Some upload3, None), db'))))"

text \<open>
  The loop of \<open>RunDatabaseGarbageCollection\<close> over the rows read by \<open>Find\<close>: \<open>k\<close> counts
  the readings of the clock, \<open>deletedUploads\<close> is the slice built so far.
\<close>

fun gc_range ::
  "world \<Rightarrow> nat \<Rightarrow> Upload list \<Rightarrow> Upload list \<Rightarrow> DB
     \<Rightarrow> (Upload list option \<times> error option) \<times> DB" where
  "gc_range w k [] deletedUploads db = ((Some deletedUploads, None), db)"
| "gc_range w k (v # vs) deletedUploads db =
     (if Unix (Now w k) > Unix (GarbageCollectDate v)
      then (case db_Delete (delete_fault w (ID v)) v db of
              (Some err, db') \<Rightarrow> ((None, Some err), db')
            | (None, db') \<Rightarrow> gc_range w (Suc k) vs (deletedUploads @ [v]) db')
      else gc_range w (Suc k) vs deletedUploads db)"

definition RunDatabaseGarbageCollection ::
  "world \<Rightarrow> DB \<Rightarrow> (Upload list option \<times> error option) \<times> DB" where
  "RunDatabaseGarbageCollection w db =
     (case db_Find (find_fault w) um_DB db of
        (Some err, _) \<Rightarrow> ((None, Some err), db)
      | (None, uploads) \<Rightarrow> gc_range w 0 uploads [] db)"

text \<open>
  \<open>um.DB.Find(&uploads).Where(...)\<close>: \<open>Find\<close> runs the query at once, with no condition;
  the \<open>Where\<close> chained after it only builds a new handle that is dropped, and the error of
  \<open>Find\<close> is not looked at.
\<close>

definition FindUploadsByHash :: "world \<Rightarrow> string \<Rightarrow> DB \<Rightarrow> Upload list" where
  "FindUploadsByHash w hash db =
     (let (check, uploads) = db_Find (find_fault w) um_DB db;
          dropped = Where um_DB (\<lambda>r. Hash r = hash)
      in uploads)"

definition GetUploadByHashForUser :: "world \<Rightarrow> string \<Rightarrow> string \<Rightarrow> DB \<Rightarrow> Upload list" where
  "GetUploadByHashForUser w hash username db =
     (let (check, uploads) = db_Find (find_fault w) um_DB db;
          dropped = Where um_DB (\<lambda>r. Hash r = hash \<and> UserName r = username)
      in uploads)"

text \<open>The sibling that filters: \<open>um.DB.Where("network_name = ?", n).Find(uploads)\<close>.\<close>

definition FindUploadsByNetwork ::
  "world \<Rightarrow> string \<Rightarrow> DB \<Rightarrow> Upload list option \<times> error option" where
  "FindUploadsByNetwork w networkName db =
     (case db_Find (find_fault w) (Where um_DB (\<lambda>r. NetworkName r = networkName)) db of
        (Some err, _) \<Rightarrow> (None, Some err)
      | (None, uploads) \<Rightarrow> (Some uploads, None))"

subsection \<open>The two durable stores\<close>

text \<open>
  All shared state is the relational store and the broker. An \<open>UploadManager\<close> holds the
  database handle and nothing else, so one of its methods runs on the \<open>store\<close> component
  and has no way to reach the \<open>broker\<close>.
\<close>

datatype queue_name =
  IpfsPinQueue | IpfsFileQueue | IpfsPinRemovalQueue | DatabaseFileAddQueue
| IpfsClusterPinQueue

datatype exchange = PinExchange | PinRemovalExchange

text \<open>
  The payloads of package \<open>queue\<close>, fields in the order of the composite literals below:
  \<open>IPFSPin{CID, NetworkName, UserName, HoldTimeInMonths}\<close>,
  \<open>IPFSPinRemoval{ContentHash, NetworkName, UserName}\<close>,
  \<open>IPFSFile{BucketName, ObjectName, UserName, NetworkName, HoldTimeInMonths}\<close>,
  \<open>DatabaseFileAdd{Hash, HoldTimeInMonths, UserName, NetworkName}\<close>,
  \<open>IPFSClusterPin{CID, NetworkName, UserName, HoldTimeInMonths}\<close>.
\<close>

datatype message =
  IPFSPin string string string int64
| IPFSPinRemoval string string string
| IPFSFile string string string string string
| DatabaseFileAdd string int64 string string
| IPFSClusterPin string string string int64

record System =
  store :: DB
  broker :: "(queue_name \<times> message) list"

definition with_manager ::
  "(DB \<Rightarrow> 'r \<times> DB) \<Rightarrow> System \<Rightarrow> 'r \<times> System" where
  "with_manager method sys =
     (case method (store sys) of (r, db') \<Rightarrow> (r, sys\<lparr>store := db'\<rparr>))"

section \<open>Package api: the request handlers\<close>

subsection \<open>Requests, collaborators and what a handler does\<close>

text \<open>
  Of a \<open>*gin.Context\<close> the handlers read the authenticated user, the post form, the path
  parameters (\<open>c.Param\<close> gives the empty string for a missing one) and the uploaded file.
\<close>

record FileHeader =
  Size :: int64
  Open :: "error option"

record Context =
  GetAuthenticatedUserFromContext :: string
  GetPostForm :: "string \<Rightarrow> string option"
  Param :: "string \<Rightarrow> string"
  FormFile :: "string \<Rightarrow> error + FileHeader"

text \<open>
  The collaborators of the handlers are outside the sources at hand (the access gate, the
  CID decoder, the queue, object-storage, IPFS and cluster clients, \<open>strconv\<close>, the
  constant \<open>AdminAddress\<close>). A handler depends on them through their answers only, which
  this record supplies.
\<close>

record API =
  CheckAccessForPrivateNetwork :: "string \<Rightarrow> string \<Rightarrow> error option"
  gocid_Decode :: "string \<Rightarrow> error option"
  strconv_ParseInt :: "string \<Rightarrow> error + int64"
  queue_Initialize :: "queue_name \<Rightarrow> error option"
  PublishMessage :: "queue_name \<Rightarrow> message \<Rightarrow> error option"
  PublishMessageWithExchange :: "queue_name \<Rightarrow> message \<Rightarrow> exchange \<Rightarrow> error option"
  NewMinioManager :: "error option"
  FileSizeCheck :: "int64 \<Rightarrow> error option"
  GenerateString :: string
  FilesUploadBucket :: string
  PutObject :: "string \<Rightarrow> string \<Rightarrow> error option"
  GetAPIURLByName :: "string \<Rightarrow> error + string"
  rtfs_Initialize :: "string \<Rightarrow> error option"
  ipfs_Add :: "error + string"
  AdminAddress :: string
  rtfs_cluster_Initialize :: "error option"
  RemovePinFromCluster :: "string \<Rightarrow> error option"
  Shell_Pin :: "string \<Rightarrow> error option"

text \<open>
  What a handler does is the list of its calls that reach outside the process, in the
  order it makes them, each call recorded whether or not it succeeds: the access check
  and the URL lookup (reads of the database), the queue, object-storage and IPFS calls,
  the log lines and the reply.
\<close>

datatype response =
  FailNoExistPostForm string
| FailOnError error
| FailOnServerError error
| FailNotAuthorized string
| Respond nat string
| JSON nat "string option"

datatype event =
  CheckAccess string string
| GetAPIURL string
| QueueInitialize queue_name
| Publish queue_name message
| PublishWithExchange queue_name message exchange
| MinioConnect
| MinioPut string string
| IpfsConnect string
| IpfsAdd
| ShellPin string
| ClusterConnect
| ClusterRemovePin string
| LogError error string
| LogInfo string
| Println string
| Reply response

definition PrivateNetworkAccessError :: string where
  "PrivateNetworkAccessError = ''invalid access to private netowrk''"

definition APIURLCheckError :: string where
  "APIURLCheckError = ''failed to get api url''"

definition IPFSConnectionError :: string where
  "IPFSConnectionError = ''failed to connect to ipfs''"

definition QueueInitializationError :: string where
  "QueueInitializationError = ''failed to initialize queue''"

definition QueuePublishError :: string where
  "QueuePublishError = ''failed to publish message to queue''"

definition IPFSAddError :: string where
  "IPFSAddError = ''failed to add file to ipfs''"

definition FileOpenError :: string where
  "FileOpenError = ''failed to open file''"

definition MinioPutError :: string where
  "MinioPutError = ''failed to store object in minio''"

definition MinioConnectionError :: string where
  "MinioConnectionError = ''failed to connect to minio''"



definition StatusOK :: nat where
  "StatusOK = 200"

subsection \<open>The handlers\<close>

definition pinToHostedIPFSNetwork :: "API \<Rightarrow> Context \<Rightarrow> event list" where
  "pinToHostedIPFSNetwork api c =
     (let username = GetAuthenticatedUserFromContext c in
      case GetPostForm c ''network_name'' of
        None \<Rightarrow> [Reply (FailNoExistPostForm ''network_name'')]
      | Some networkName \<Rightarrow>
          CheckAccess username networkName #
          (case CheckAccessForPrivateNetwork api username networkName of
             Some err \<Rightarrow> [LogError err PrivateNetworkAccessError, Reply (FailOnError err)]
           | None \<Rightarrow>
               (let hash = Param c ''hash'' in
                case gocid_Decode api hash of
                  Some err \<Rightarrow> [Reply (FailOnError err)]
                | None \<Rightarrow>
                    (case GetPostForm c ''hold_time'' of
                       None \<Rightarrow> [Reply (FailNoExistPostForm ''hold_time'')]
                     | Some holdTimeInMonths \<Rightarrow>
                         (case strconv_ParseInt api holdTimeInMonths of
                            Inl err \<Rightarrow> [Reply (FailOnError err)]
                          | Inr holdTimeInt \<Rightarrow>
                              (let ip = IPFSPin hash networkName username holdTimeInt in
                               QueueInitialize IpfsPinQueue #
                               (case queue_Initialize api IpfsPinQueue of
                                  Some err \<Rightarrow>
                                    [LogError err QueueInitializationError,
                                     Reply (FailOnServerError err)]
                                | None \<Rightarrow>
                                    PublishWithExchange IpfsPinQueue ip PinExchange #
                                    (case PublishMessageWithExchange api IpfsPinQueue ip
                                            PinExchange of
                                       Some err \<Rightarrow>
                                         [LogError err QueuePublishError,
                                          Reply (FailOnServerError err)]
                                     | None \<Rightarrow>
                                         [LogInfo
                                            ''ipfs pin request for private network sent to backend'',
                                          Reply (Respond StatusOK
                                            ''content pin request sent to backend'')]))))))))"

definition removePinFromLocalHostForHostedIPFSNetwork :: "API \<Rightarrow> Context \<Rightarrow> event list" where
  "removePinFromLocalHostForHostedIPFSNetwork api c =
     (let username = GetAuthenticatedUserFromContext c;
          hash = Param c ''hash'' in
      case gocid_Decode api hash of
        Some err \<Rightarrow> [Reply (FailOnError err)]
      | None \<Rightarrow>
          (case GetPostForm c ''network_name'' of
             None \<Rightarrow> [Reply (FailNoExistPostForm ''network_name'')]
           | Some networkName \<Rightarrow>
               CheckAccess username networkName #
               (case CheckAccessForPrivateNetwork api username networkName of
                  Some err \<Rightarrow> [LogError err PrivateNetworkAccessError, Reply (FailOnError err)]
                | None \<Rightarrow>
                    (let rm = IPFSPinRemoval hash networkName username in
                     QueueInitialize IpfsPinRemovalQueue #
                     (case queue_Initialize api IpfsPinRemovalQueue of
                        Some err \<Rightarrow>
                          [LogError err QueueInitializationError, Reply (FailOnError err)]
                      | None \<Rightarrow>
                          PublishWithExchange IpfsPinRemovalQueue rm PinRemovalExchange #
                          (case PublishMessageWithExchange api IpfsPinRemovalQueue rm
                                  PinRemovalExchange of
                             Some err \<Rightarrow>
                               [LogError err QueuePublishError, Reply (FailOnError err)]
                           | None \<Rightarrow>
                               [LogInfo ''private ipfs pin removal request sent to backend'',
                                Reply (Respond StatusOK ''pin removal sent to backend'')]))))))"




definition addFileToHostedIPFSNetworkAdvanced :: "API \<Rightarrow> Context \<Rightarrow> event list" where
  "addFileToHostedIPFSNetworkAdvanced api c =
     (let username = GetAuthenticatedUserFromContext c in
      case GetPostForm c ''network_name'' of
        None \<Rightarrow> [Reply (FailNoExistPostForm ''network_name'')]
      | Some networkName \<Rightarrow>
          CheckAccess username networkName #
          (case CheckAccessForPrivateNetwork api username networkName of
             Some err \<Rightarrow> [LogError err PrivateNetworkAccessError, Reply (FailOnError err)]
           | None \<Rightarrow>
               (case GetPostForm c ''hold_time'' of
                  None \<Rightarrow> [Reply (FailNoExistPostForm ''hold_time'')]
                | Some holdTimeInMonths \<Rightarrow>
                    MinioConnect #
                    (case NewMinioManager api of
                       Some err \<Rightarrow> [LogError err MinioConnectionError, Reply (FailOnError err)]
                     | None \<Rightarrow>
                         (case FormFile c ''file'' of
                            Inl err \<Rightarrow> [Reply (FailOnError err)]
                          | Inr fileHandler \<Rightarrow>
                              (case FileSizeCheck api (Size fileHandler) of
                                 Some err \<Rightarrow> [Reply (FailOnError err)]
                               | None \<Rightarrow>
                                   Println ''opening file'' #
                                   (case Open fileHandler of
                                      Some err \<Rightarrow>
                                        [LogError err FileOpenError, Reply (FailOnError err)]
                                    | None \<Rightarrow>
                                        (let randString = GenerateString api;
                                             objectName = username @ randString in
                                         [Println ''file opened'',
                                          Println ''storing file in minio'',
                                          MinioPut (FilesUploadBucket api) objectName] @
                                         (case PutObject api (FilesUploadBucket api) objectName of
                                            Some err \<Rightarrow>
                                              [LogError err MinioPutError,
                                               Reply (FailOnError err)]
                                          | None \<Rightarrow>
                                              (let ifp = IPFSFile (FilesUploadBucket api)
                                                           objectName username networkName
                                                           holdTimeInMonths in
                                               [Println ''file stored in minio'',
                                                QueueInitialize IpfsFileQueue] @
                                               (case queue_Initialize api IpfsFileQueue of
                                                  Some err \<Rightarrow>
                                                    [LogError err QueueInitializationError,
                                                     Reply (FailOnError err)]
                                                | None \<Rightarrow>
                                                    Publish IpfsFileQueue ifp #
                                                    (case PublishMessage api IpfsFileQueue ifp of
                                                       Some err \<Rightarrow>
                                                         [LogError err QueuePublishError,
                                                          Reply (FailOnError err)]
                                                     | None \<Rightarrow>
                                                         [LogInfo
                                                            ''advanced private ipfs file upload requested'',
                                                          Reply (Respond StatusOK
                                                            ''file upload request sent to backend'')]))))))))))))"

text \<open>
  The second half of \<open>addFileToHostedIPFSNetwork\<close>, from \<open>ipfsManager.Add(file)\<close> on: the
  two publishes.
\<close>

definition addFile_publish ::
  "API \<Rightarrow> string \<Rightarrow> string \<Rightarrow> int64 \<Rightarrow> event list" where
  "addFile_publish api username networkName holdTimeInt =
     IpfsAdd #
     (case ipfs_Add api of
        Inl err \<Rightarrow> [LogError err IPFSAddError, Reply (FailOnError err)]
      | Inr resp \<Rightarrow>
          (let dfa = DatabaseFileAdd resp holdTimeInt username networkName in
           [Println ''file uploaded'', Publish DatabaseFileAddQueue dfa] @
           (case PublishMessage api DatabaseFileAddQueue dfa of
              Some err \<Rightarrow> [LogError err QueuePublishError, Reply (FailOnError err)]
            | None \<Rightarrow>
                (let pin = IPFSPin resp networkName username holdTimeInt in
                 QueueInitialize IpfsPinQueue #
                 (case queue_Initialize api IpfsPinQueue of
                    Some err \<Rightarrow>
                      [LogError err QueueInitializationError, Reply (FailOnError err)]
                  | None \<Rightarrow>
                      PublishWithExchange IpfsPinQueue pin PinExchange #
                      (case PublishMessageWithExchange api IpfsPinQueue pin PinExchange of
                         Some err \<Rightarrow>
                           [LogError err QueuePublishError, Reply (FailOnError err)]
                       | None \<Rightarrow>
                           [LogInfo ''simple private ipfs file upload processed'',
                            Reply (Respond StatusOK resp)]))))))"

definition addFileToHostedIPFSNetwork :: "API \<Rightarrow> Context \<Rightarrow> event list" where
  "addFileToHostedIPFSNetwork api c =
     (let username = GetAuthenticatedUserFromContext c in
      case GetPostForm c ''network_name'' of
        None \<Rightarrow> [Reply (FailNoExistPostForm ''network_name'')]
      | Some networkName \<Rightarrow>
          CheckAccess username networkName #
          (case CheckAccessForPrivateNetwork api username networkName of
             Some err \<Rightarrow> [LogError err PrivateNetworkAccessError, Reply (FailOnError err)]
           | None \<Rightarrow>
               (case GetPostForm c ''hold_time'' of
                  None \<Rightarrow> [Reply (FailNoExistPostForm ''hold_time'')]
                | Some holdTimeinMonths \<Rightarrow>
                    (case strconv_ParseInt api holdTimeinMonths of
                       Inl err \<Rightarrow> [Reply (FailOnError err)]
                     | Inr holdTimeInt \<Rightarrow>
                         GetAPIURL networkName #
                         (case GetAPIURLByName api networkName of
                            Inl err \<Rightarrow> [LogError err APIURLCheckError, Reply (FailOnError err)]
                          | Inr apiURL \<Rightarrow>
                              IpfsConnect apiURL #
                              (case rtfs_Initialize api apiURL of
                                 Some err \<Rightarrow>
                                   [LogError err IPFSConnectionError, Reply (FailOnError err)]
                               | None \<Rightarrow>
                                   QueueInitialize DatabaseFileAddQueue #
                                   (case queue_Initialize api DatabaseFileAddQueue of
                                      Some err \<Rightarrow>
                                        [LogError err QueueInitializationError,
                                         Reply (FailOnError err)]
                                    | None \<Rightarrow>
                                        Println ''fetching file'' #
                                        (case FormFile c ''file'' of
                                           Inl err \<Rightarrow> [Reply (FailOnError err)]
                                         | Inr fileHandler \<Rightarrow>
                                             (case FileSizeCheck api (Size fileHandler) of
                                                Some err \<Rightarrow> [Reply (FailOnError err)]
                                              | None \<Rightarrow>
                                                  (case Open fileHandler of
                                                     Some err \<Rightarrow>
                                                       [LogError err FileOpenError,
                                                        Reply (FailOnError err)]
                                                   | None \<Rightarrow>
                                                       addFile_publish api username networkName
                                                         holdTimeInt))))))))))"

subsection \<open>Reading a handler's record\<close>

fun is_publish :: "event \<Rightarrow> bool" where
  "is_publish (Publish q m) = True"
| "is_publish (PublishWithExchange q m x) = True"
| "is_publish e = False"

fun is_queue_call :: "event \<Rightarrow> bool" where
  "is_queue_call (QueueInitialize q) = True"
| "is_queue_call e = is_publish e"

fun is_access_check :: "event \<Rightarrow> bool" where
  "is_access_check (CheckAccess u n) = True"
| "is_access_check e = False"


text \<open>
  No call to the queue is made before the first access check: the calls made up to that
  check (all of them, when there is no check) contain none.
\<close>

definition gate_first :: "event list \<Rightarrow> bool" where
  "gate_first tr = (\<not> list_ex is_queue_call (takeWhile (\<lambda>e. \<not> is_access_check e) tr))"

text \<open>
  The network and the user a published payload is for (the \<open>NetworkName\<close> and \<open>UserName\<close>
  fields), and whether a call, if it is a publish, is for the given user and network.
\<close>

fun scope :: "message \<Rightarrow> string \<times> string" where
  "scope (IPFSPin cid networkName username hold) = (username, networkName)"
| "scope (IPFSPinRemoval hash networkName username) = (username, networkName)"
| "scope (IPFSFile bucket object username networkName hold) = (username, networkName)"
| "scope (DatabaseFileAdd hash hold username networkName) = (username, networkName)"
| "scope (IPFSClusterPin cid networkName username hold) = (username, networkName)"

fun publishes_for :: "string \<Rightarrow> string \<Rightarrow> event \<Rightarrow> bool" where
  "publishes_for u n (Publish q m) = (scope m = (u, n))"
| "publishes_for u n (PublishWithExchange q m x) = (scope m = (u, n))"
| "publishes_for u n e = True"

text \<open>What a handler does when the access check answers \<open>err\<close>.\<close>

definition access_denied :: "string \<Rightarrow> string \<Rightarrow> error \<Rightarrow> event list" where
  "access_denied u n err =
     [CheckAccess u n, LogError err PrivateNetworkAccessError, Reply (FailOnError err)]"

section \<open>Notions used in the statements\<close>

text \<open>The test of the sweep, \<open>time.Now().Unix() > v.GarbageCollectDate.Unix()\<close>.\<close>

definition expired :: "Time \<Rightarrow> Upload \<Rightarrow> bool" where
  "expired now v = (Unix now > Unix (GarbageCollectDate v))"

text \<open>
  A run of renewals: each entry is one call of \<open>UpdateUpload\<close> with its surroundings and
  arguments, made on the table the previous call left.
\<close>

fun renewals :: "(world \<times> int64 \<times> string \<times> string \<times> string) list \<Rightarrow> DB \<Rightarrow> DB" where
  "renewals [] db = db"
| "renewals ((w, holdTimeInMonths, username, contentHash, networkName) # calls) db =
     renewals calls (snd (UpdateUpload w holdTimeInMonths username contentHash networkName db))"

section \<open>Concrete inputs\<close>

text \<open>
  Thirty days in nanoseconds stand for a month in the examples; \<open>calm t\<close> is a 64-bit
  platform at time \<open>t\<close> on which no database call fails.
\<close>

definition month :: Time where
  "month = 2592000000000000"

definition calm :: "Time \<Rightarrow> world" where
  "calm t = \<lparr>IntSize = 64, CalculateGarbageCollectDate = (\<lambda>h. t + h * month),
              Now = (\<lambda>k. t), first_fault = None, find_fault = None, create_fault = None,
              save_fault = None, delete_fault = (\<lambda>i. None)\<rparr>"

definition save_down :: world where
  "save_down = (calm 1000000000000)\<lparr>save_fault := Some (Error ''connection refused'')\<rparr>"

text \<open>
  \<open>lookup_down\<close>: the database answers the lookup (\<open>First\<close>) with an error that is not
  "record not found", here a statement timeout, and serves the calls after it.
\<close>

definition lookup_down :: world where
  "lookup_down =
     (calm 5)\<lparr>first_fault := Some (Error ''pq: canceling statement due to statement timeout'')\<rparr>"

definition delete_down :: world where
  "delete_down =
     (calm (2 * month))\<lparr>delete_fault :=
        (\<lambda>i. if i = 2 then Some (Error ''connection refused'') else None)\<rparr>"

definition u_qm :: Upload where
  "u_qm = \<lparr>ID = 1, Hash = ''Qm123'', Type = ''pin'', Name = ''notes'',
           NetworkName = ''public'', HoldTimeInMonths = 1, UserName = ''alice'',
           GarbageCollectDate = month, UserNames = [''alice'']\<rparr>"

definition u_two :: Upload where
  "u_two = \<lparr>ID = 2, Hash = ''Qm456'', Type = ''file'', Name = ''photo'',
            NetworkName = ''public'', HoldTimeInMonths = 1, UserName = ''bob'',
            GarbageCollectDate = month, UserNames = [''bob'']\<rparr>"

definition u_three :: Upload where
  "u_three = \<lparr>ID = 3, Hash = ''Qm789'', Type = ''pin'', Name = ''video'',
              NetworkName = ''net1'', HoldTimeInMonths = 1, UserName = ''carol'',
              GarbageCollectDate = month, UserNames = [''carol'']\<rparr>"

definition db_empty :: DB where
  "db_empty = \<lparr>rows = [], next_id = 1\<rparr>"

definition db_one :: DB where
  "db_one = \<lparr>rows = [u_qm], next_id = 2\<rparr>"

definition db_three :: DB where
  "db_three = \<lparr>rows = [u_qm, u_two, u_three], next_id = 4\<rparr>"

definition sys_one :: System where
  "sys_one = \<lparr>store = db_one, broker = []\<rparr>"

definition api_open :: API where
  "api_open = \<lparr>CheckAccessForPrivateNetwork = (\<lambda>u n. None),
     gocid_Decode = (\<lambda>h. if h = ''Qm123'' then None else Some (Error ''invalid cid'')),
     strconv_ParseInt = (\<lambda>s. if s = ''1'' then Inr 1 else Inl (Error ''invalid syntax'')),
     queue_Initialize = (\<lambda>q. None),
     PublishMessage = (\<lambda>q m. None),
     PublishMessageWithExchange = (\<lambda>q m x. None),
     NewMinioManager = None,
     FileSizeCheck = (\<lambda>n. None),
     GenerateString = ''r4nd'',
     FilesUploadBucket = ''files'',
     PutObject = (\<lambda>b ob. None),
     GetAPIURLByName = (\<lambda>n. Inr ''127.0.0.1:5001''),
     rtfs_Initialize = (\<lambda>u. None),
     ipfs_Add = Inr ''Qm123'',
     AdminAddress = ''admin'',
     rtfs_cluster_Initialize = None,
     RemovePinFromCluster = (\<lambda>h. None),
     Shell_Pin = (\<lambda>h. if h = ''Qm123'' then None else Some (Error ''invalid path''))\<rparr>"

definition api_closed :: API where
  "api_closed =
     api_open\<lparr>CheckAccessForPrivateNetwork := (\<lambda>u n. Some (Error ''no access''))\<rparr>"

definition ctx_pin :: Context where
  "ctx_pin = \<lparr>GetAuthenticatedUserFromContext = ''alice'',
     GetPostForm = map_of [(''network_name'', ''net1''), (''hold_time'', ''1'')],
     Param = (\<lambda>k. if k = ''hash'' then ''Qm123'' else []),
     FormFile = (\<lambda>k. if k = ''file'' then Inr \<lparr>Size = 10, Open = None\<rparr>
                     else Inl (Error ''http: no such file''))\<rparr>"



section \<open>The ledger: lookups, creation and renewal\<close>

lemma isUploader_iff: "isUploader u xs = (u \<in> set xs)"
  by (induction xs) auto

lemma db_First_found:
  "db_First fault q db = Inr r \<Longrightarrow> r \<in> set (rows db) \<and> matches q r \<and> fault = None"
proof -
  assume a: "db_First fault q db = Inr r"
  then have f: "fault = None"
    by (cases fault) (simp_all add: db_First_def)
  with a obtain rest where "filter (matches q) (rows db) = r # rest"
    by (auto simp: db_First_def split: list.splits)
  then have "r \<in> set (filter (matches q) (rows db))" by simp
  with f show ?thesis by simp
qed

lemma Find_triple_found:
  "FindUploadByHashAndNetworkAndUser w c n u db = Inr r \<Longrightarrow>
     r \<in> set (rows db) \<and> Hash r = c \<and> NetworkName r = n \<and> UserName r = u"
  unfolding FindUploadByHashAndNetworkAndUser_def
  by (drule db_First_found) (simp add: matches_def Where_def um_DB_def)

lemma unique_key:
  assumes "distinct (map ID rs)" "r \<in> set rs" "x \<in> set rs" "ID x = ID r"
  shows "x = r"
  using assms by (meson distinct_map inj_on_def)

lemma map_replace_same:
  assumes "distinct (map ID rs)" "r \<in> set rs" "ID u = ID r" "f u = f r"
  shows "map f (map (\<lambda>x. if ID x = ID u then u else x) rs) = map f rs"
proof -
  have "\<And>x. x \<in> set rs \<Longrightarrow> ID x = ID r \<Longrightarrow> x = r"
    using unique_key[OF assms(1,2)] by blast
  then show ?thesis using assms(3,4) by (auto simp: map_idI)
qed

lemma db_Save_keeps:
  assumes "distinct (map ID (rows db))" "r \<in> set (rows db)" "ID u = ID r" "f u = f r"
  shows "map f (rows (snd (db_Save fault u db))) = map f (rows db)"
proof (cases fault)
  case None
  have "ID u \<in> ID ` set (rows db)" using assms(2,3) by auto
  then show ?thesis
    using None map_replace_same[OF assms] by (simp add: db_Save_def del: map_map)
next
  case (Some e)
  then show ?thesis by (simp add: db_Save_def)
qed

lemma UpdateUpload_store:
  assumes "FindUploadByHashAndNetworkAndUser w c n u db = Inr r"
  shows "snd (UpdateUpload w h u c n db) = db \<or>
         (\<exists>u'. ID u' = ID r \<and> GarbageCollectDate u' = GarbageCollectDate r \<and>
               snd (UpdateUpload w h u c n db) = snd (db_Save (save_fault w) u' db))"
proof -
  obtain hi err where at: "Atoi_Sprintf (IntSize w) h = (hi, err)" by force
  show ?thesis
  proof (cases err)
    case (Some e)
    then show ?thesis using assms at by (simp add: UpdateUpload_def Let_def)
  next
    case None
    let ?u1 = "r\<lparr>UserName := u\<rparr>"
    let ?u2 = "if \<not> isUploader u (UserNames ?u1)
               then ?u1\<lparr>UserNames := UserNames ?u1 @ [u]\<rparr> else ?u1"
    let ?u3 = "if Unix (CalculateGarbageCollectDate w hi) > Unix (GarbageCollectDate ?u2)
               then ?u2\<lparr>HoldTimeInMonths := h, GarbageCollectDate := GarbageCollectDate ?u2\<rparr>
               else ?u2"
    have "snd (UpdateUpload w h u c n db) = snd (db_Save (save_fault w) ?u3 db)"
      using assms at None
      by (cases "db_Save (save_fault w) ?u3 db")
         (simp add: UpdateUpload_def Let_def split: option.splits)
    moreover have "ID ?u3 = ID r" "GarbageCollectDate ?u3 = GarbageCollectDate r"
      by simp_all
    ultimately show ?thesis by blast
  qed
qed

lemma UpdateUpload_step:
  assumes d: "distinct (map ID (rows db))"
  shows "map ID (rows (snd (UpdateUpload w h u c n db))) = map ID (rows db) \<and>
         map GarbageCollectDate (rows (snd (UpdateUpload w h u c n db))) =
           map GarbageCollectDate (rows db)"
proof (cases "FindUploadByHashAndNetworkAndUser w c n u db")
  case (Inl e)
  then show ?thesis by (simp add: UpdateUpload_def)
next
  case (Inr r)
  then have rin: "r \<in> set (rows db)" by (simp add: Find_triple_found)
  from UpdateUpload_store[OF Inr, of h]
  show ?thesis
  proof
    assume "snd (UpdateUpload w h u c n db) = db"
    then show ?thesis by simp
  next
    assume "\<exists>u'. ID u' = ID r \<and> GarbageCollectDate u' = GarbageCollectDate r \<and>
               snd (UpdateUpload w h u c n db) = snd (db_Save (save_fault w) u' db)"
    then obtain u' where u': "ID u' = ID r" "GarbageCollectDate u' = GarbageCollectDate r"
      "snd (UpdateUpload w h u c n db) = snd (db_Save (save_fault w) u' db)" by blast
    show ?thesis
      using db_Save_keeps[OF d rin u'(1), of ID]
        db_Save_keeps[OF d rin u'(1), of GarbageCollectDate] u' by simp
  qed
qed

lemma renewals_keep:
  "distinct (map ID (rows db)) \<Longrightarrow>
   map ID (rows (renewals calls db)) = map ID (rows db) \<and>
   map GarbageCollectDate (rows (renewals calls db)) = map GarbageCollectDate (rows db)"
proof (induction calls arbitrary: db)
  case Nil
  then show ?case by simp
next
  case (Cons call calls)
  obtain w h u c n where call: "call = (w, h, u, c, n)" by (cases call)
  let ?db = "snd (UpdateUpload w h u c n db)"
  from UpdateUpload_step[OF Cons.prems, of w h u c n]
  have s: "map ID (rows ?db) = map ID (rows db)"
    "map GarbageCollectDate (rows ?db) = map GarbageCollectDate (rows db)" by simp_all
  then have "distinct (map ID (rows ?db))" using Cons.prems by simp
  from Cons.IH[OF this] s show ?case by (simp add: call)
qed

lemma NewUpload_again:
  assumes first: "NewUpload w1 c ty n u nm hold db = ((Some up, None), db1)"
    and look: "first_fault w2 = None"
  shows "NewUpload w2 c ty2 n u nm2 hold2 db1 = ((None, Some ErrUploadExists), db1)"
proof -
  let ?q = "Where um_DB (\<lambda>r. Hash r = c \<and> NetworkName r = n \<and> UserName r = u)"
  from first obtain up0 where c: "db_Create (create_fault w1) up0 db = (None, up, db1)"
      and up0: "Hash up0 = c" "NetworkName up0 = n" "UserName up0 = u"
    by (auto simp: NewUpload_def Let_def split: sum.splits prod.splits option.splits)
  then have "up \<in> set (rows db1)" "matches ?q up"
    by (auto simp: db_Create_def Let_def matches_def Where_def um_DB_def split: option.splits)
  then have "filter (matches ?q) (rows db1) \<noteq> []"
    by (auto simp: filter_empty_conv)
  then obtain r rest where "filter (matches ?q) (rows db1) = r # rest"
    by (cases "filter (matches ?q) (rows db1)") auto
  then have "FindUploadByHashAndNetworkAndUser w2 c n u db1 = Inr r"
    using look by (simp add: FindUploadByHashAndNetworkAndUser_def db_First_def)
  then show ?thesis by (simp add: NewUpload_def)
qed

lemma Atoi_one: "Atoi_Sprintf 64 1 = (1, None)"
  by (simp add: Atoi_Sprintf_def)

lemma Atoi_three: "Atoi_Sprintf 64 3 = (3, None)"
  by (simp add: Atoi_Sprintf_def)

lemma create_qm:
  "NewUpload (calm 0) ''Qm123'' ''pin'' ''public'' ''alice'' ''notes'' 1 db_empty =
     ((Some u_qm, None), db_one)"
  by (simp add: NewUpload_def FindUploadByHashAndNetworkAndUser_def db_First_def db_Create_def
      calm_def db_empty_def db_one_def u_qm_def Atoi_one Where_def um_DB_def matches_def
      Let_def)

lemma find_qm:
  "FindUploadByHashAndNetworkAndUser (calm t) ''Qm123'' ''public'' ''alice'' db_one = Inr u_qm"
  by (simp add: FindUploadByHashAndNetworkAndUser_def db_First_def calm_def db_one_def
      u_qm_def Where_def um_DB_def matches_def)

lemma find_qm_save_down:
  "FindUploadByHashAndNetworkAndUser save_down ''Qm123'' ''public'' ''alice'' db_one =
     Inr u_qm"
  by (simp add: FindUploadByHashAndNetworkAndUser_def db_First_def calm_def save_down_def
      db_one_def u_qm_def Where_def um_DB_def matches_def)

text \<open>
  C1. A renewal whose newly computed date is strictly later than the stored one should store
  the new date. At the input of the specification's own scenario the code does not: the
  record created at time 0 with a hold of one month is renewed, \<open>1000\<close> seconds later, with
  a hold of three months; the new date is later than the stored one, the stored
  \<open>HoldTimeInMonths\<close> becomes 3, and the stored \<open>GarbageCollectDate\<close> is still the old one
  (line 91 assigns \<open>oldGcd\<close>).
\<close>

theorem UpdateUpload_later_date_not_stored:
  "NewUpload (calm 0) ''Qm123'' ''pin'' ''public'' ''alice'' ''notes'' 1 db_empty =
     ((Some u_qm, None), db_one) \<and>
   Unix (GarbageCollectDate u_qm) <
     Unix (CalculateGarbageCollectDate (calm 1000000000000) 3) \<and>
   UpdateUpload (calm 1000000000000) 3 ''alice'' ''Qm123'' ''public'' db_one =
     ((Some (u_qm\<lparr>HoldTimeInMonths := 3\<rparr>), None),
      \<lparr>rows = [u_qm\<lparr>HoldTimeInMonths := 3\<rparr>], next_id = 2\<rparr>) \<and>
   GarbageCollectDate (u_qm\<lparr>HoldTimeInMonths := 3\<rparr>) = month"
proof -
  have "UpdateUpload (calm 1000000000000) 3 ''alice'' ''Qm123'' ''public'' db_one =
     ((Some (u_qm\<lparr>HoldTimeInMonths := 3\<rparr>), None),
      \<lparr>rows = [u_qm\<lparr>HoldTimeInMonths := 3\<rparr>], next_id = 2\<rparr>)"
    by (simp add: UpdateUpload_def find_qm)
       (simp add: db_Save_def calm_def db_one_def u_qm_def Atoi_three Let_def Unix_def
          month_def)
  moreover have "Unix (GarbageCollectDate u_qm) <
     Unix (CalculateGarbageCollectDate (calm 1000000000000) 3)"
    by (simp add: calm_def u_qm_def Unix_def month_def)
  moreover have "GarbageCollectDate (u_qm\<lparr>HoldTimeInMonths := 3\<rparr>) = month"
    by (simp add: u_qm_def)
  ultimately show ?thesis using create_qm by simp
qed

text \<open>
  When the lookup of the second call is answered by the database, a second \<open>NewUpload\<close> for
  a (hash, network, user) triple that \<open>NewUpload\<close> has already created, whatever its other
  arguments, is refused with the already-exists error and leaves the table exactly as it
  was.
\<close>

lemma NewUpload_refuses_when_lookup_answered:
  assumes "NewUpload w1 contentHash uploadType networkName username name hold db =
             ((Some upload, None), db1)"
    and "first_fault w2 = None"
  shows "NewUpload w2 contentHash uploadType2 networkName username name2 hold2 db1 =
           ((None, Some ErrUploadExists), db1)"
  using assms by (rule NewUpload_again)

lemma NewUpload_refuses_example:
  "NewUpload (calm 0) ''Qm123'' ''pin'' ''public'' ''alice'' ''notes'' 1 db_empty =
     ((Some u_qm, None), db_one) \<and>
   first_fault (calm 5) = None \<and>
   NewUpload (calm 5) ''Qm123'' ''file'' ''public'' ''alice'' ''again'' 7 db_one =
     ((None, Some ErrUploadExists), db_one)"
proof -
  have f: "first_fault (calm 5) = None" by (simp add: calm_def)
  from NewUpload_refuses_when_lookup_answered[OF create_qm f] create_qm f
  show ?thesis by simp
qed

text \<open>
  C4. A second \<open>NewUpload\<close> for the same (hash, network, user) triple should fail with the
  already-exists error and leave the table unchanged. \<open>NewUpload\<close> takes every error of its
  lookup for "no such record" (it refuses only when \<open>err == nil\<close>), so when the lookup of
  the second call fails for another reason the code goes on to \<open>Create\<close>: with the record
  of the first call in the table, the second call for the same triple returns a record and
  a nil error, and the table holds two records for the triple.
\<close>

theorem NewUpload_duplicate_after_lookup_error:
  "NewUpload (calm 0) ''Qm123'' ''pin'' ''public'' ''alice'' ''notes'' 1 db_empty =
     ((Some u_qm, None), db_one) \<and>
   NewUpload lookup_down ''Qm123'' ''pin'' ''public'' ''alice'' ''notes'' 1 db_one =
     ((Some (u_qm\<lparr>ID := 2, GarbageCollectDate := 5 + month\<rparr>), None),
      \<lparr>rows = [u_qm, u_qm\<lparr>ID := 2, GarbageCollectDate := 5 + month\<rparr>], next_id = 3\<rparr>) \<and>
   length (filter (\<lambda>r. Hash r = ''Qm123'' \<and> NetworkName r = ''public'' \<and> UserName r = ''alice'')
     (rows (snd (NewUpload lookup_down ''Qm123'' ''pin'' ''public'' ''alice'' ''notes'' 1
        db_one)))) = 2"
proof -
  have d: "NewUpload lookup_down ''Qm123'' ''pin'' ''public'' ''alice'' ''notes'' 1 db_one =
     ((Some (u_qm\<lparr>ID := 2, GarbageCollectDate := 5 + month\<rparr>), None),
      \<lparr>rows = [u_qm, u_qm\<lparr>ID := 2, GarbageCollectDate := 5 + month\<rparr>], next_id = 3\<rparr>)"
    by (simp add: NewUpload_def FindUploadByHashAndNetworkAndUser_def db_First_def
        db_Create_def lookup_down_def calm_def db_one_def u_qm_def Atoi_one Let_def)
  have "length (filter (\<lambda>r. Hash r = ''Qm123'' \<and> NetworkName r = ''public'' \<and>
      UserName r = ''alice'') [u_qm, u_qm\<lparr>ID := 2, GarbageCollectDate := 5 + month\<rparr>]) = 2"
    by (simp add: u_qm_def)
  with d create_qm show ?thesis by simp
qed

text \<open>
  C5. A renewal never moves a stored \<open>GarbageCollectDate\<close> back: over any run of
  \<open>UpdateUpload\<close> calls on a table with distinct primary keys, whatever their arguments and
  whether or not they succeed, the table keeps the same records (by key) and every record
  keeps the date it had. In particular a renewal whose new date is not later than the stored
  one leaves the stored date unchanged, and no stored date ever decreases.
\<close>

theorem renewals_never_shorten:
  assumes "distinct (map ID (rows db))"
  shows "map ID (rows (renewals calls db)) = map ID (rows db) \<and>
         map GarbageCollectDate (rows (renewals calls db)) =
           map GarbageCollectDate (rows db)"
  using assms by (rule renewals_keep)

theorem renewals_never_shorten_witness:
  "distinct (map ID (rows db_one)) \<and>
   map GarbageCollectDate
     (rows (renewals [(calm 1000000000000, 3, ''alice'', ''Qm123'', ''public''),
                      (calm 2000000000000, 0, ''alice'', ''Qm123'', ''public'')] db_one)) =
   [month]"
proof -
  have d: "distinct (map ID (rows db_one))" by (simp add: db_one_def)
  have r: "map GarbageCollectDate
     (rows (renewals [(calm 1000000000000, 3, ''alice'', ''Qm123'', ''public''),
                      (calm 2000000000000, 0, ''alice'', ''Qm123'', ''public'')] db_one)) =
     map GarbageCollectDate (rows db_one)"
    using renewals_never_shorten[OF d] by blast
  have "map GarbageCollectDate (rows db_one) = [month]"
    by (simp add: db_one_def u_qm_def)
  with r d show ?thesis by (simp only: simp_thms)
qed

text \<open>
  C9. When \<open>UpdateUpload\<close> has found the record and reaches \<open>um.DB.Save\<close> (the hold time
  was read back as an \<open>int\<close>), and the save fails, it returns a nil record together with a
  nil error, and the table is unchanged: the \<open>err\<close> it returns is the one of
  \<open>strconv.Atoi\<close>, which is nil at that point.
\<close>

theorem UpdateUpload_save_failure_nil_nil:
  assumes "FindUploadByHashAndNetworkAndUser w contentHash networkName username db = Inr found"
    and "snd (Atoi_Sprintf (IntSize w) holdTimeInMonths) = None"
    and "save_fault w = Some e"
  shows "UpdateUpload w holdTimeInMonths username contentHash networkName db =
           ((None, None), db)"
  using assms
  by (cases "Atoi_Sprintf (IntSize w) holdTimeInMonths")
     (simp add: UpdateUpload_def Let_def db_Save_def)

theorem UpdateUpload_save_failure_nil_nil_witness:
  "FindUploadByHashAndNetworkAndUser save_down ''Qm123'' ''public'' ''alice'' db_one =
     Inr u_qm \<and>
   snd (Atoi_Sprintf (IntSize save_down) 3) = None \<and>
   save_fault save_down = Some (Error ''connection refused'') \<and>
   UpdateUpload save_down 3 ''alice'' ''Qm123'' ''public'' db_one = ((None, None), db_one)"
proof -
  have a: "snd (Atoi_Sprintf (IntSize save_down) 3) = None"
    by (simp add: save_down_def calm_def Atoi_three)
  have s: "save_fault save_down = Some (Error ''connection refused'')"
    by (simp add: save_down_def)
  from UpdateUpload_save_failure_nil_nil[OF find_qm_save_down a s] find_qm_save_down a s
  show ?thesis by simp
qed

text \<open>
  C10. \<open>FindUploadsByHash\<close> and \<open>GetUploadByHashForUser\<close> do not depend on their hash and
  username arguments, and when the query is answered they return every row of the table:
  \<open>Find\<close> has run, without condition, before \<open>Where\<close> is chained.
\<close>

theorem find_by_hash_returns_all:
  "FindUploadsByHash w hash db = FindUploadsByHash w hash' db \<and>
   GetUploadByHashForUser w hash username db = GetUploadByHashForUser w hash' username' db \<and>
   (find_fault w = None \<longrightarrow>
      FindUploadsByHash w hash db = rows db \<and>
      GetUploadByHashForUser w hash username db = rows db)"
  by (simp add: FindUploadsByHash_def GetUploadByHashForUser_def db_Find_def um_DB_def
      matches_def split: option.splits)

theorem find_by_hash_returns_all_witness:
  "find_fault (calm 0) = None \<and>
   FindUploadsByHash (calm 0) ''Qm456'' db_three = [u_qm, u_two, u_three] \<and>
   GetUploadByHashForUser (calm 0) ''Qm456'' ''bob'' db_three = [u_qm, u_two, u_three]"
proof -
  have f: "find_fault (calm 0) = None" by (simp add: calm_def)
  from find_by_hash_returns_all[of "calm 0" "''Qm456''" db_three "''Qm456''" "''bob''" "''bob''"] f
  show ?thesis by (simp add: db_three_def)
qed

section \<open>The garbage-collection sweep\<close>

lemma expired_eq: "expired now = (\<lambda>v. Unix (GarbageCollectDate v) < Unix now)"
  by (simp add: expired_def fun_eq_iff)

lemma db_Delete_ok:
  "db_Delete None v db = (None, db\<lparr>rows := filter (\<lambda>r. ID r \<noteq> ID v) (rows db)\<rparr>)"
  by (simp add: db_Delete_def)

lemma db_Delete_fail: "db_Delete (Some e) v db = (Some e, db)"
  by (simp add: db_Delete_def)

lemma filter_ids_cons:
  "filter (\<lambda>r. ID r \<notin> ID ` S) (filter (\<lambda>r. ID r \<noteq> ID v) rs) =
   filter (\<lambda>r. ID r \<notin> ID ` insert v S) rs"
  by (induction rs) auto

lemma gc_range_returns:
  "gc_range w k vs del db = ((Some del', err), db') \<Longrightarrow>
   err = None \<and> (\<exists>new. del' = del @ new \<and> set new \<subseteq> set vs \<and>
         db' = db\<lparr>rows := filter (\<lambda>r. ID r \<notin> ID ` set new) (rows db)\<rparr>)"
proof (induction vs arbitrary: k del db)
  case Nil
  then show ?case by simp
next
  case (Cons v vs)
  show ?case
  proof (cases "Unix (Now w k) > Unix (GarbageCollectDate v)")
    case False
    with Cons.prems have "gc_range w (Suc k) vs del db = ((Some del', err), db')" by simp
    from Cons.IH[OF this] show ?thesis by auto
  next
    case True
    show ?thesis
    proof (cases "delete_fault w (ID v)")
      case (Some e)
      with True Cons.prems show ?thesis by (simp add: db_Delete_fail)
    next
      case None
      let ?db1 = "db\<lparr>rows := filter (\<lambda>r. ID r \<noteq> ID v) (rows db)\<rparr>"
      from True None Cons.prems
      have "gc_range w (Suc k) vs (del @ [v]) ?db1 = ((Some del', err), db')"
        by (simp add: db_Delete_ok)
      from Cons.IH[OF this] obtain new where
        n: "err = None" "del' = (del @ [v]) @ new" "set new \<subseteq> set vs"
        "db' = ?db1\<lparr>rows := filter (\<lambda>r. ID r \<notin> ID ` set new) (rows ?db1)\<rparr>" by blast
      have "del' = del @ (v # new)" using n(2) by simp
      moreover have "set (v # new) \<subseteq> set (v # vs)" using n(3) by auto
      moreover have "db' = db\<lparr>rows := filter (\<lambda>r. ID r \<notin> ID ` set (v # new)) (rows db)\<rparr>"
        using n(4) by (simp add: filter_ids_cons)
      ultimately show ?thesis using n(1) by blast
    qed
  qed
qed

lemma gc_range_calm:
  assumes "\<forall>i. delete_fault w i = None" "\<forall>k. Now w k = now"
  shows "gc_range w k vs del db =
     ((Some (del @ filter (expired now) vs), None),
      db\<lparr>rows := filter (\<lambda>r. ID r \<notin> ID ` set (filter (expired now) vs)) (rows db)\<rparr>)"
proof (induction vs arbitrary: k del db)
  case Nil
  then show ?case by simp
next
  case (Cons v vs)
  show ?case
  proof (cases "expired now v")
    case True
    then show ?thesis using assms Cons.IH
      by (simp add: expired_def db_Delete_ok filter_ids_cons)
  next
    case False
    then show ?thesis using assms Cons.IH by (simp add: expired_def)
  qed
qed

lemma filter_by_ids:
  assumes "distinct (map ID rs)"
  shows "filter (\<lambda>r. ID r \<notin> ID ` set (filter P rs)) rs = filter (\<lambda>r. \<not> P r) rs"
proof (rule filter_cong[OF refl])
  fix r assume r: "r \<in> set rs"
  have "\<And>x. x \<in> set rs \<Longrightarrow> ID x = ID r \<Longrightarrow> x = r"
    using unique_key[OF assms r] by blast
  then show "(ID r \<notin> ID ` set (filter P rs)) = (\<not> P r)" using r by auto
qed

lemma sweep_calm:
  assumes "find_fault w = None" "\<forall>i. delete_fault w i = None" "\<forall>k. Now w k = now"
    "distinct (map ID (rows db))"
  shows "RunDatabaseGarbageCollection w db =
     ((Some (filter (expired now) (rows db)), None),
      db\<lparr>rows := filter (\<lambda>r. \<not> expired now r) (rows db)\<rparr>)"
  using assms(1) gc_range_calm[OF assms(2,3)] filter_by_ids[OF assms(4)]
  by (simp add: RunDatabaseGarbageCollection_def db_Find_def um_DB_def matches_def)

lemma gc_range_abort:
  assumes clock: "\<forall>k. Now w k = now"
    and bad: "expired now v" "delete_fault w (ID v) = Some e"
    and pre: "\<forall>p \<in> set pre. expired now p \<longrightarrow> delete_fault w (ID p) = None"
  shows "gc_range w k (pre @ v # post) del db =
     ((None, Some e),
      db\<lparr>rows := filter (\<lambda>r. ID r \<notin> ID ` set (filter (expired now) pre)) (rows db)\<rparr>)"
  using pre
proof (induction pre arbitrary: k del db)
  case Nil
  then show ?case using clock bad by (simp add: expired_def db_Delete_fail)
next
  case (Cons p pre)
  show ?case
  proof (cases "expired now p")
    case True
    then show ?thesis using clock Cons
      by (simp add: expired_def db_Delete_ok filter_ids_cons)
  next
    case False
    then show ?thesis using clock Cons by (simp add: expired_def)
  qed
qed

lemma sweep_one_expired:
  "RunDatabaseGarbageCollection (calm (2 * month)) db_one =
     ((Some [u_qm], None), \<lparr>rows = [], next_id = 2\<rparr>)"
  by (simp add: RunDatabaseGarbageCollection_def db_Find_def db_Delete_def calm_def
      db_one_def u_qm_def um_DB_def matches_def Unix_def month_def)

lemma sweep_delete_down:
  "RunDatabaseGarbageCollection delete_down db_three =
     ((None, Some (Error ''connection refused'')), \<lparr>rows = [u_two, u_three], next_id = 4\<rparr>)"
  by (simp add: RunDatabaseGarbageCollection_def db_Find_def db_Delete_def delete_down_def
      calm_def db_three_def u_qm_def u_two_def u_three_def um_DB_def matches_def Unix_def
      month_def)

text \<open>
  C2 (amended). The sweep publishes nothing: \<open>RunDatabaseGarbageCollection\<close> leaves the
  broker as it was, and what it offers its caller is the list it returns, which on success
  holds exactly the records it removed from the table (every returned record was a row,
  and the rows left are those whose key is not among the returned ones).
\<close>

theorem sweep_reports_deleted_rows:
  "broker (snd (with_manager (RunDatabaseGarbageCollection w) sys)) = broker sys \<and>
   (\<forall>deleted. fst (fst (with_manager (RunDatabaseGarbageCollection w) sys)) = Some deleted \<longrightarrow>
      set deleted \<subseteq> set (rows (store sys)) \<and>
      rows (store (snd (with_manager (RunDatabaseGarbageCollection w) sys))) =
        filter (\<lambda>r. ID r \<notin> ID ` set deleted) (rows (store sys)))"
proof -
  obtain res err db' where r: "RunDatabaseGarbageCollection w (store sys) = ((res, err), db')"
    by (metis surj_pair)
  have "\<And>deleted. res = Some deleted \<Longrightarrow>
      set deleted \<subseteq> set (rows (store sys)) \<and>
      rows db' = filter (\<lambda>r. ID r \<notin> ID ` set deleted) (rows (store sys))"
  proof -
    fix deleted assume s: "res = Some deleted"
    with r have ff: "find_fault w = None"
      by (cases "find_fault w") (auto simp: RunDatabaseGarbageCollection_def db_Find_def)
    with r s have g: "gc_range w 0 (rows (store sys)) [] (store sys) = ((Some deleted, err), db')"
      by (simp add: RunDatabaseGarbageCollection_def db_Find_def um_DB_def matches_def)
    from gc_range_returns[OF g]
    show "set deleted \<subseteq> set (rows (store sys)) \<and>
      rows db' = filter (\<lambda>r. ID r \<notin> ID ` set deleted) (rows (store sys))" by auto
  qed
  then show ?thesis using r by (simp add: with_manager_def)
qed

theorem sweep_reports_deleted_rows_witness:
  "fst (fst (with_manager (RunDatabaseGarbageCollection (calm (2 * month))) sys_one)) =
     Some [u_qm] \<and>
   broker (snd (with_manager (RunDatabaseGarbageCollection (calm (2 * month))) sys_one)) =
     broker sys_one \<and>
   set [u_qm] \<subseteq> set (rows (store sys_one)) \<and>
   rows (store (snd (with_manager (RunDatabaseGarbageCollection (calm (2 * month))) sys_one))) =
     filter (\<lambda>r. ID r \<notin> ID ` set [u_qm]) (rows (store sys_one))"
proof -
  have ev: "fst (fst (with_manager (RunDatabaseGarbageCollection (calm (2 * month))) sys_one)) =
     Some [u_qm]"
    by (simp add: with_manager_def sys_one_def sweep_one_expired)
  from sweep_reports_deleted_rows[of "calm (2 * month)" sys_one] ev
  show ?thesis by blast
qed

text \<open>
  C2 as stated fails: on a table holding one expired record the sweep deletes and returns
  that record, and the broker, empty before, is empty after - one record deleted, no
  removal intent published.
\<close>

theorem sweep_publishes_nothing_counterexample:
  "with_manager (RunDatabaseGarbageCollection (calm (2 * month))) sys_one =
     ((Some [u_qm], None), \<lparr>store = \<lparr>rows = [], next_id = 2\<rparr>, broker = []\<rparr>) \<and>
   length (broker (snd (with_manager (RunDatabaseGarbageCollection (calm (2 * month)))
     sys_one))) \<noteq> length (broker sys_one) + length [u_qm]"
  by (simp add: with_manager_def sys_one_def sweep_one_expired)

text \<open>
  C3 (amended). When no database call fails, the clock reads \<open>now\<close> throughout the sweep
  and primary keys are distinct, the sweep deletes and returns exactly the records whose
  \<open>GarbageCollectDate\<close>, in whole Unix seconds, is strictly before \<open>now\<close> (a record whose
  second equals that of \<open>now\<close> stays), and a second sweep at the same time returns the
  empty list and changes nothing.
\<close>

theorem sweep_strictly_expired:
  assumes "find_fault w = None" "\<forall>i. delete_fault w i = None" "\<forall>k. Now w k = now"
    "distinct (map ID (rows db))"
  shows "RunDatabaseGarbageCollection w db =
     ((Some (filter (\<lambda>v. Unix (GarbageCollectDate v) < Unix now) (rows db)), None),
      db\<lparr>rows := filter (\<lambda>v. \<not> Unix (GarbageCollectDate v) < Unix now) (rows db)\<rparr>) \<and>
    RunDatabaseGarbageCollection w (snd (RunDatabaseGarbageCollection w db)) =
     ((Some [], None), snd (RunDatabaseGarbageCollection w db))"
proof -
  let ?db1 = "db\<lparr>rows := filter (\<lambda>r. \<not> expired now r) (rows db)\<rparr>"
  have 1: "RunDatabaseGarbageCollection w db =
     ((Some (filter (expired now) (rows db)), None), ?db1)"
    by (rule sweep_calm[OF assms])
  have d1: "distinct (map ID (rows ?db1))" using assms(4) by (simp add: distinct_map_filter)
  have 2: "RunDatabaseGarbageCollection w ?db1 = ((Some [], None), ?db1)"
    using sweep_calm[OF assms(1,2,3) d1] by simp
  show ?thesis using 1 2 by (simp add: expired_eq)
qed

theorem sweep_strictly_expired_witness:
  "find_fault (calm (2 * month)) = None \<and>
   (\<forall>i. delete_fault (calm (2 * month)) i = None) \<and>
   (\<forall>k. Now (calm (2 * month)) k = 2 * month) \<and>
   distinct (map ID (rows db_three)) \<and>
   RunDatabaseGarbageCollection (calm (2 * month)) db_three =
     ((Some [u_qm, u_two, u_three], None), \<lparr>rows = [], next_id = 4\<rparr>) \<and>
   RunDatabaseGarbageCollection (calm (2 * month)) \<lparr>rows = [], next_id = 4\<rparr> =
     ((Some [], None), \<lparr>rows = [], next_id = 4\<rparr>)"
proof -
  have h: "find_fault (calm (2 * month)) = None"
    "\<forall>i. delete_fault (calm (2 * month)) i = None"
    "\<forall>k. Now (calm (2 * month)) k = 2 * month"
    "distinct (map ID (rows db_three))"
    by (simp_all add: calm_def db_three_def u_qm_def u_two_def u_three_def)
  have f: "filter (\<lambda>v. Unix (GarbageCollectDate v) < Unix (2 * month)) (rows db_three) =
       [u_qm, u_two, u_three]"
    "filter (\<lambda>v. \<not> Unix (GarbageCollectDate v) < Unix (2 * month)) (rows db_three) = []"
    by (simp_all add: db_three_def u_qm_def u_two_def u_three_def Unix_def month_def)
  note t = sweep_strictly_expired[OF h]
  have e: "db_three\<lparr>rows := []\<rparr> = \<lparr>rows = [], next_id = 4\<rparr>"
    by (simp add: db_three_def)
  have a: "RunDatabaseGarbageCollection (calm (2 * month)) db_three =
     ((Some [u_qm, u_two, u_three], None), \<lparr>rows = [], next_id = 4\<rparr>)"
    using conjunct1[OF t] f e by simp
  have b: "RunDatabaseGarbageCollection (calm (2 * month)) \<lparr>rows = [], next_id = 4\<rparr> =
     ((Some [], None), \<lparr>rows = [], next_id = 4\<rparr>)"
    using conjunct2[OF t] a by simp
  show ?thesis using h a b by simp
qed

text \<open>
  C3 as stated fails at the boundary: a record whose \<open>GarbageCollectDate\<close> equals \<open>now\<close>
  is neither deleted nor returned.
\<close>

theorem sweep_boundary_counterexample:
  "GarbageCollectDate u_qm \<le> Now (calm month) 0 \<and>
   RunDatabaseGarbageCollection (calm month) db_one = ((Some [], None), db_one)"
  by (simp add: RunDatabaseGarbageCollection_def db_Find_def db_Delete_def calm_def
      db_one_def u_qm_def um_DB_def matches_def Unix_def month_def)

text \<open>
  C6 (amended). A failure to delete one record ends the sweep: when the table is
  \<open>pre @ v # post\<close>, the deletes of the records of \<open>pre\<close> succeed and the delete of the
  expired record \<open>v\<close> fails with \<open>e\<close>, the sweep returns a nil list and the error \<open>e\<close>;
  the expired records of \<open>pre\<close> stay deleted, and \<open>v\<close> and every record after it, expired
  or not, stay in the table and are not returned.
\<close>

theorem sweep_aborts_on_delete_failure:
  assumes find: "find_fault w = None"
    and clock: "\<forall>k. Now w k = now"
    and keys: "distinct (map ID (rows db))"
    and tbl: "rows db = pre @ v # post"
    and bad: "Unix (GarbageCollectDate v) < Unix now" "delete_fault w (ID v) = Some e"
    and pre: "\<forall>p \<in> set pre. delete_fault w (ID p) = None"
  shows "RunDatabaseGarbageCollection w db =
     ((None, Some e),
      db\<lparr>rows := filter (\<lambda>r. \<not> Unix (GarbageCollectDate r) < Unix now) pre @ v # post\<rparr>)"
proof -
  have b: "expired now v" using bad(1) by (simp add: expired_def)
  have p: "\<forall>p \<in> set pre. expired now p \<longrightarrow> delete_fault w (ID p) = None" using pre by simp
  have dpre: "distinct (map ID pre)" using keys tbl by simp
  have 1: "filter (\<lambda>r. ID r \<notin> ID ` set (filter (expired now) pre)) pre =
           filter (\<lambda>r. \<not> expired now r) pre"
    by (rule filter_by_ids[OF dpre])
  have 2: "filter (\<lambda>r. ID r \<notin> ID ` set (filter (expired now) pre)) (v # post) = v # post"
  proof (rule filter_True, rule ballI)
    fix r assume r: "r \<in> set (v # post)"
    have "ID r \<notin> ID ` set pre"
      using keys tbl r by (auto simp: image_iff)
    then show "ID r \<notin> ID ` set (filter (expired now) pre)" by auto
  qed
  show ?thesis
    using find
      gc_range_abort[OF clock b bad(2) p, where post=post and k=0 and del="[]" and db=db]
      tbl 1 2
    by (simp add: RunDatabaseGarbageCollection_def db_Find_def um_DB_def matches_def
        expired_eq)
qed

theorem sweep_aborts_on_delete_failure_witness:
  "find_fault delete_down = None \<and>
   (\<forall>k. Now delete_down k = 2 * month) \<and>
   distinct (map ID (rows db_three)) \<and>
   rows db_three = [u_qm] @ u_two # [u_three] \<and>
   Unix (GarbageCollectDate u_two) < Unix (2 * month) \<and>
   delete_fault delete_down (ID u_two) = Some (Error ''connection refused'') \<and>
   delete_fault delete_down (ID u_qm) = None \<and>
   RunDatabaseGarbageCollection delete_down db_three =
     ((None, Some (Error ''connection refused'')), \<lparr>rows = [u_two, u_three], next_id = 4\<rparr>)"
proof -
  have h: "find_fault delete_down = None"
    "\<forall>k. Now delete_down k = 2 * month"
    "distinct (map ID (rows db_three))"
    "rows db_three = [u_qm] @ u_two # [u_three]"
    "Unix (GarbageCollectDate u_two) < Unix (2 * month)"
    "delete_fault delete_down (ID u_two) = Some (Error ''connection refused'')"
    "\<forall>p \<in> set [u_qm]. delete_fault delete_down (ID p) = None"
    by (simp_all add: delete_down_def calm_def db_three_def u_qm_def u_two_def u_three_def
        Unix_def month_def)
  have f: "filter (\<lambda>r. \<not> Unix (GarbageCollectDate r) < Unix (2 * month)) [u_qm] = []"
    by (simp add: u_qm_def Unix_def month_def)
  note t = sweep_aborts_on_delete_failure[OF h]
  have e: "db_three\<lparr>rows := [u_two, u_three]\<rparr> = \<lparr>rows = [u_two, u_three], next_id = 4\<rparr>"
    by (simp add: db_three_def)
  have a: "RunDatabaseGarbageCollection delete_down db_three =
     ((None, Some (Error ''connection refused'')), \<lparr>rows = [u_two, u_three], next_id = 4\<rparr>)"
    using t f e by simp
  show ?thesis using h a by simp
qed

text \<open>
  C6 as stated fails: with three expired records and a failing delete of the second, the
  sweep returns no list at all, and the third record, although expired, is still in the
  table.
\<close>

theorem sweep_delete_failure_counterexample:
  "RunDatabaseGarbageCollection delete_down db_three =
     ((None, Some (Error ''connection refused'')), \<lparr>rows = [u_two, u_three], next_id = 4\<rparr>) \<and>
   Unix (GarbageCollectDate u_three) < Unix (Now delete_down 2)"
  by (simp add: sweep_delete_down) (simp add: delete_down_def calm_def u_three_def Unix_def
      month_def)

section \<open>The request handlers\<close>

lemma pin_gate: "gate_first (pinToHostedIPFSNetwork api c)"
  by (simp add: pinToHostedIPFSNetwork_def gate_first_def Let_def split: option.splits)

lemma remove_gate: "gate_first (removePinFromLocalHostForHostedIPFSNetwork api c)"
  by (simp add: removePinFromLocalHostForHostedIPFSNetwork_def gate_first_def Let_def
      split: option.splits)

lemma addadv_gate: "gate_first (addFileToHostedIPFSNetworkAdvanced api c)"
  by (simp add: addFileToHostedIPFSNetworkAdvanced_def gate_first_def Let_def
      split: option.splits)

lemma add_gate: "gate_first (addFileToHostedIPFSNetwork api c)"
  by (simp add: addFileToHostedIPFSNetwork_def gate_first_def Let_def split: option.splits)

lemma pin_denied:
  "GetPostForm c ''network_name'' = Some n \<Longrightarrow>
   CheckAccessForPrivateNetwork api (GetAuthenticatedUserFromContext c) n = Some err \<Longrightarrow>
   pinToHostedIPFSNetwork api c = access_denied (GetAuthenticatedUserFromContext c) n err"
  by (simp add: pinToHostedIPFSNetwork_def access_denied_def Let_def)

lemma addadv_denied:
  "GetPostForm c ''network_name'' = Some n \<Longrightarrow>
   CheckAccessForPrivateNetwork api (GetAuthenticatedUserFromContext c) n = Some err \<Longrightarrow>
   addFileToHostedIPFSNetworkAdvanced api c =
     access_denied (GetAuthenticatedUserFromContext c) n err"
  by (simp add: addFileToHostedIPFSNetworkAdvanced_def access_denied_def Let_def)

lemma add_denied:
  "GetPostForm c ''network_name'' = Some n \<Longrightarrow>
   CheckAccessForPrivateNetwork api (GetAuthenticatedUserFromContext c) n = Some err \<Longrightarrow>
   addFileToHostedIPFSNetwork api c = access_denied (GetAuthenticatedUserFromContext c) n err"
  by (simp add: addFileToHostedIPFSNetwork_def access_denied_def Let_def)

lemma remove_denied:
  "GetPostForm c ''network_name'' = Some n \<Longrightarrow>
   CheckAccessForPrivateNetwork api (GetAuthenticatedUserFromContext c) n = Some err \<Longrightarrow>
   removePinFromLocalHostForHostedIPFSNetwork api c =
     (case gocid_Decode api (Param c ''hash'') of
        Some bad \<Rightarrow> [Reply (FailOnError bad)]
      | None \<Rightarrow> access_denied (GetAuthenticatedUserFromContext c) n err)"
  by (simp add: removePinFromLocalHostForHostedIPFSNetwork_def access_denied_def Let_def
      split: option.splits)

lemma addFile_publish_for: "list_all (publishes_for u n) (addFile_publish api u n h)"
  by (simp add: addFile_publish_def Let_def split: sum.splits option.splits)

lemma add_for:
  "GetPostForm c ''network_name'' = Some n \<Longrightarrow>
   list_all (publishes_for (GetAuthenticatedUserFromContext c) n)
     (addFileToHostedIPFSNetwork api c)"
  by (simp add: addFileToHostedIPFSNetwork_def addFile_publish_for Let_def
      split: sum.splits option.splits)

lemma addadv_for:
  "GetPostForm c ''network_name'' = Some n \<Longrightarrow>
   list_all (publishes_for (GetAuthenticatedUserFromContext c) n)
     (addFileToHostedIPFSNetworkAdvanced api c)"
  by (simp add: addFileToHostedIPFSNetworkAdvanced_def Let_def
      split: sum.splits option.splits)

lemma pin_for:
  "GetPostForm c ''network_name'' = Some n \<Longrightarrow>
   list_all (publishes_for (GetAuthenticatedUserFromContext c) n)
     (pinToHostedIPFSNetwork api c)"
  by (simp add: pinToHostedIPFSNetwork_def Let_def split: sum.splits option.splits)

lemma remove_for:
  "GetPostForm c ''network_name'' = Some n \<Longrightarrow>
   list_all (publishes_for (GetAuthenticatedUserFromContext c) n)
     (removePinFromLocalHostForHostedIPFSNetwork api c)"
  by (simp add: removePinFromLocalHostForHostedIPFSNetwork_def Let_def
      split: sum.splits option.splits)








lemma pin_open:
  "pinToHostedIPFSNetwork api_open ctx_pin =
     [CheckAccess ''alice'' ''net1'', QueueInitialize IpfsPinQueue,
      PublishWithExchange IpfsPinQueue (IPFSPin ''Qm123'' ''net1'' ''alice'' 1) PinExchange,
      LogInfo ''ipfs pin request for private network sent to backend'',
      Reply (Respond 200 ''content pin request sent to backend'')]"
  by (simp add: pinToHostedIPFSNetwork_def api_open_def ctx_pin_def StatusOK_def Let_def)

text \<open>
  C7. In the four private-network handlers (pin, pin removal, and the two file adds) no
  call to the queue is made before the access check; every message they publish is for
  the authenticated user and the \<open>network_name\<close> of the request, the pair that was
  checked; and when the check for that pair fails, the handler does nothing but the check,
  the log line and the error reply (for pin removal, whose CID test comes first, nothing
  but the error reply when the CID is malformed): no queue call, and no write of any kind.
\<close>

theorem access_check_gates_queue:
  "gate_first (pinToHostedIPFSNetwork api c) \<and>
   gate_first (removePinFromLocalHostForHostedIPFSNetwork api c) \<and>
   gate_first (addFileToHostedIPFSNetworkAdvanced api c) \<and>
   gate_first (addFileToHostedIPFSNetwork api c) \<and>
   (GetPostForm c ''network_name'' = Some networkName \<longrightarrow>
      list_all (publishes_for (GetAuthenticatedUserFromContext c) networkName)
        (pinToHostedIPFSNetwork api c) \<and>
      list_all (publishes_for (GetAuthenticatedUserFromContext c) networkName)
        (removePinFromLocalHostForHostedIPFSNetwork api c) \<and>
      list_all (publishes_for (GetAuthenticatedUserFromContext c) networkName)
        (addFileToHostedIPFSNetworkAdvanced api c) \<and>
      list_all (publishes_for (GetAuthenticatedUserFromContext c) networkName)
        (addFileToHostedIPFSNetwork api c) \<and>
      (CheckAccessForPrivateNetwork api (GetAuthenticatedUserFromContext c) networkName =
         Some err \<longrightarrow>
         pinToHostedIPFSNetwork api c =
           access_denied (GetAuthenticatedUserFromContext c) networkName err \<and>
         addFileToHostedIPFSNetworkAdvanced api c =
           access_denied (GetAuthenticatedUserFromContext c) networkName err \<and>
         addFileToHostedIPFSNetwork api c =
           access_denied (GetAuthenticatedUserFromContext c) networkName err \<and>
         removePinFromLocalHostForHostedIPFSNetwork api c =
           (case gocid_Decode api (Param c ''hash'') of
              Some bad \<Rightarrow> [Reply (FailOnError bad)]
            | None \<Rightarrow> access_denied (GetAuthenticatedUserFromContext c) networkName err)))"
proof (intro conjI impI)
  show "gate_first (pinToHostedIPFSNetwork api c)" by (rule pin_gate)
  show "gate_first (removePinFromLocalHostForHostedIPFSNetwork api c)" by (rule remove_gate)
  show "gate_first (addFileToHostedIPFSNetworkAdvanced api c)" by (rule addadv_gate)
  show "gate_first (addFileToHostedIPFSNetwork api c)" by (rule add_gate)
next
  assume n: "GetPostForm c ''network_name'' = Some networkName"
  show "list_all (publishes_for (GetAuthenticatedUserFromContext c) networkName)
        (pinToHostedIPFSNetwork api c)" by (rule pin_for[OF n])
  show "list_all (publishes_for (GetAuthenticatedUserFromContext c) networkName)
        (removePinFromLocalHostForHostedIPFSNetwork api c)" by (rule remove_for[OF n])
  show "list_all (publishes_for (GetAuthenticatedUserFromContext c) networkName)
        (addFileToHostedIPFSNetworkAdvanced api c)" by (rule addadv_for[OF n])
  show "list_all (publishes_for (GetAuthenticatedUserFromContext c) networkName)
        (addFileToHostedIPFSNetwork api c)" by (rule add_for[OF n])
  assume d: "CheckAccessForPrivateNetwork api (GetAuthenticatedUserFromContext c) networkName =
         Some err"
  show "pinToHostedIPFSNetwork api c =
           access_denied (GetAuthenticatedUserFromContext c) networkName err"
    by (rule pin_denied[OF n d])
  show "addFileToHostedIPFSNetworkAdvanced api c =
           access_denied (GetAuthenticatedUserFromContext c) networkName err"
    by (rule addadv_denied[OF n d])
  show "addFileToHostedIPFSNetwork api c =
           access_denied (GetAuthenticatedUserFromContext c) networkName err"
    by (rule add_denied[OF n d])
  show "removePinFromLocalHostForHostedIPFSNetwork api c =
           (case gocid_Decode api (Param c ''hash'') of
              Some bad \<Rightarrow> [Reply (FailOnError bad)]
            | None \<Rightarrow> access_denied (GetAuthenticatedUserFromContext c) networkName err)"
    by (rule remove_denied[OF n d])
qed

theorem access_check_gates_queue_witness:
  "GetPostForm ctx_pin ''network_name'' = Some ''net1'' \<and>
   CheckAccessForPrivateNetwork api_closed (GetAuthenticatedUserFromContext ctx_pin) ''net1'' =
     Some (Error ''no access'') \<and>
   pinToHostedIPFSNetwork api_closed ctx_pin =
     access_denied (GetAuthenticatedUserFromContext ctx_pin) ''net1'' (Error ''no access'') \<and>
   list_ex is_publish (pinToHostedIPFSNetwork api_open ctx_pin) \<and>
   gate_first (pinToHostedIPFSNetwork api_open ctx_pin) \<and>
   list_all (publishes_for (GetAuthenticatedUserFromContext ctx_pin) ''net1'')
     (pinToHostedIPFSNetwork api_open ctx_pin)"
proof -
  have n: "GetPostForm ctx_pin ''network_name'' = Some ''net1''"
    by (simp add: ctx_pin_def)
  have d: "CheckAccessForPrivateNetwork api_closed (GetAuthenticatedUserFromContext ctx_pin)
     ''net1'' = Some (Error ''no access'')"
    by (simp add: api_closed_def api_open_def)
  have p: "list_ex is_publish (pinToHostedIPFSNetwork api_open ctx_pin)"
    by (simp add: pin_open)
  from access_check_gates_queue[of api_closed ctx_pin "''net1''" "Error ''no access''"]
    access_check_gates_queue[of api_open ctx_pin "''net1''" "Error ''no access''"] n d p
  show ?thesis by blast
qed




end
